theory Spec2Isabelle
  imports Complex_Main
begin

section \<open>The JNI bridge for llama.cpp: data model\<close>

text \<open>
  The bridge (\<^verbatim>\<open>llama_jni.cpp\<close>) keeps its session in file-scope variables and comes in
  two compilations: the real one, linked against llama.cpp, and the stub one
  (\<^verbatim>\<open>LLAMA_STUB\<close>). Strings are byte strings. A \<^verbatim>\<open>const char*\<close> is read up to its
  terminating NUL, which \<open>c_str\<close> expresses: it is what \<^verbatim>\<open>strlen\<close>, the
  \<^verbatim>\<open>std::string\<close> constructor and \<^verbatim>\<open>NewStringUTF\<close> see of a buffer.
  A \<^verbatim>\<open>jint\<close> is modelled as \<open>int\<close>: the code only compares the arguments, and
  \<^verbatim>\<open>n_gen\<close> counts up to at most \<^verbatim>\<open>maxTokens\<close>, so it cannot wrap; \<^verbatim>\<open>n_cur\<close> is only
  handed on as a position. The \<^verbatim>\<open>jfloat\<close> temperature is never inspected by the code.
\<close>

definition c_str :: "string \<Rightarrow> string" where
  "c_str s = takeWhile (\<lambda>c. c \<noteq> CHR 0x00) s"

type_synonym llama_token = int
type_synonym llama_pos = int
type_synonym llama_seq_id = int

text \<open>The stub compilation has two globals (lines 33-35); the real one adds the two handles
  (lines 25-29). The context handle stands for the mutable context it points to.\<close>

record stub_globals =
  g_model_loaded :: bool
  g_cancel_generation :: bool

record ('m, 'c) globals = stub_globals +
  g_model :: "'m option"
  g_ctx :: "'c option"

text \<open>The state of a fresh process: the initialisers of lines 25-35.\<close>

definition fresh_stub :: stub_globals where
  "fresh_stub = \<lparr>g_model_loaded = False, g_cancel_generation = False\<rparr>"

definition fresh :: "('m, 'c) globals" where
  "fresh = \<lparr>g_model_loaded = False, g_cancel_generation = False, g_model = None, g_ctx = None\<rparr>"

subsection \<open>The inference library\<close>

text \<open>
  llama.cpp is an external collaborator, so its entry points are parameters of the model,
  collected in a record. Only the fields of the parameter structs that the bridge assigns
  are kept. \<open>llama_tokenize\<close> and \<open>llama_token_to_piece\<close> return their \<^verbatim>\<open>int\<close> result
  together with what they wrote to the caller's buffer. \<open>llama_sample\<close> is the composition
  \<^verbatim>\<open>llama_sample_token_greedy(ctx, llama_get_logits_ith(ctx, i))\<close> of lines 201-202.
\<close>

record llama_model_params =
  n_gpu_layers :: int

record llama_context_params =
  n_ctx :: int
  n_threads :: int
  n_threads_batch :: int

record batch_entry =
  token :: llama_token
  pos :: llama_pos
  seq_id :: "llama_seq_id list"
  logits :: bool

text \<open>
  Modelled from the spec: the batch type and its helpers (\<^verbatim>\<open>llama_batch_init\<close>,
  \<^verbatim>\<open>llama_batch_add\<close>, \<^verbatim>\<open>llama_batch_clear\<close>) are declared in \<^verbatim>\<open>llama.h\<close> and
  \<^verbatim>\<open>common.h\<close>, which are not part of the source. A batch is a set of (token, position,
  sequence-id, wants-logits) tuples; \<^verbatim>\<open>llama_batch_init(n, 0, s)\<close> allocates room for
  \<open>n\<close> of them with up to \<open>s\<close> sequence ids each, and \<^verbatim>\<open>n_tokens\<close> counts the ones in
  use. \<^verbatim>\<open>llama_batch_add\<close> writes the next tuple without a bounds check, so adding to
  a full batch writes outside the allocation: the model reports that as a fault.
\<close>

datatype fault = BatchOverflow | LogitsIndexOutOfRange

record llama_batch =
  capacity :: nat
  n_seq_max :: nat
  entries :: "batch_entry list"

definition n_tokens :: "llama_batch \<Rightarrow> int" where
  "n_tokens b = int (length (entries b))"

definition llama_batch_init :: "nat \<Rightarrow> nat \<Rightarrow> nat \<Rightarrow> llama_batch" where
  "llama_batch_init n embd s = \<lparr>capacity = n, n_seq_max = s, entries = []\<rparr>"

definition llama_batch_add ::
  "llama_batch \<Rightarrow> llama_token \<Rightarrow> llama_pos \<Rightarrow> llama_seq_id list \<Rightarrow> bool \<Rightarrow> fault + llama_batch" where
  "llama_batch_add b tok p seq_ids lg =
     (if length (entries b) < capacity b \<and> length seq_ids \<le> n_seq_max b
      then Inr (b\<lparr>entries := entries b @ [\<lparr>token = tok, pos = p, seq_id = seq_ids, logits = lg\<rparr>]\<rparr>)
      else Inl BatchOverflow)"

definition llama_batch_clear :: "llama_batch \<Rightarrow> llama_batch" where
  "llama_batch_clear b = b\<lparr>entries := []\<rparr>"

text \<open>The assignment \<^verbatim>\<open>batch.logits[i] = v\<close> of line 186.\<close>

definition set_logits :: "llama_batch \<Rightarrow> int \<Rightarrow> bool \<Rightarrow> fault + llama_batch" where
  "set_logits b i v =
     (if 0 \<le> i \<and> i < n_tokens b
      then Inr (b\<lparr>entries := (entries b)[nat i := (entries b ! nat i)\<lparr>logits := v\<rparr>]\<rparr>)
      else Inl LogitsIndexOutOfRange)"

record ('m, 'c) llama =
  llama_model_default_params :: llama_model_params
  llama_context_default_params :: llama_context_params
  llama_load_model_from_file :: "string \<Rightarrow> llama_model_params \<Rightarrow> 'm option"
  llama_new_context_with_model :: "'m \<Rightarrow> llama_context_params \<Rightarrow> 'c option"
  llama_tokenize :: "'m \<Rightarrow> string \<Rightarrow> nat \<Rightarrow> bool \<Rightarrow> bool \<Rightarrow> int \<times> llama_token list"
  llama_kv_cache_clear :: "'c \<Rightarrow> 'c"
  llama_decode :: "'c \<Rightarrow> llama_batch \<Rightarrow> int \<times> 'c"
  llama_sample :: "'c \<Rightarrow> int \<Rightarrow> llama_token"
  llama_token_is_eog :: "'m \<Rightarrow> llama_token \<Rightarrow> bool"
  llama_token_to_piece :: "'m \<Rightarrow> llama_token \<Rightarrow> nat \<Rightarrow> bool \<Rightarrow> int \<times> string"

section \<open>The real compilation\<close>

text \<open>\<^verbatim>\<open>nativeInit\<close> (lines 43-58): the backend's own state is not visible to the bridge.\<close>

definition nativeInit :: "('m, 'c) globals \<Rightarrow> bool \<times> ('m, 'c) globals" where
  "nativeInit s = (True, s)"

text \<open>The context parameters of lines 105-108.\<close>

definition ctx_params_of :: "('m, 'c) llama \<Rightarrow> int \<Rightarrow> int \<Rightarrow> llama_context_params" where
  "ctx_params_of lib nCtx nThreads =
     (llama_context_default_params lib)
       \<lparr>n_ctx := (if nCtx > 0 then nCtx else 2048),
        n_threads := (if nThreads > 0 then nThreads else 4),
        n_threads_batch := (if nThreads > 0 then nThreads else 4)\<rparr>"

text \<open>\<^verbatim>\<open>nativeLoadModel\<close> (lines 68-129), real branch.\<close>

definition nativeLoadModel ::
  "('m, 'c) llama \<Rightarrow> ('m, 'c) globals \<Rightarrow> string \<Rightarrow> int \<Rightarrow> int \<Rightarrow> bool \<times> ('m, 'c) globals" where
  "nativeLoadModel lib s modelPath nCtx nThreads =
     (let path = c_str modelPath;
          s1 = (if g_ctx s \<noteq> None then s\<lparr>g_ctx := None\<rparr> else s);
          s2 = (if g_model s1 \<noteq> None then s1\<lparr>g_model := None\<rparr> else s1);
          model_params = (llama_model_default_params lib)\<lparr>n_gpu_layers := 0\<rparr>;
          s3 = s2\<lparr>g_model := llama_load_model_from_file lib path model_params\<rparr>
      in case g_model s3 of
           None \<Rightarrow> (False, s3)
         | Some m \<Rightarrow>
             (let ctx_params = ctx_params_of lib nCtx nThreads;
                  s4 = s3\<lparr>g_ctx := llama_new_context_with_model lib m ctx_params\<rparr>
              in case g_ctx s4 of
                   None \<Rightarrow> (False, s4\<lparr>g_model := None\<rparr>)
                 | Some c \<Rightarrow> (True, s4\<lparr>g_model_loaded := True\<rparr>)))"

text \<open>\<^verbatim>\<open>nativeUnloadModel\<close> (lines 260-282), \<^verbatim>\<open>nativeIsModelLoaded\<close> (287-293),
  \<^verbatim>\<open>nativeCancelGeneration\<close> (246-255) and \<^verbatim>\<open>nativeFree\<close> (298-312), real branch.\<close>

definition nativeUnloadModel :: "('m, 'c) globals \<Rightarrow> ('m, 'c) globals" where
  "nativeUnloadModel s =
     (let s1 = (if g_ctx s \<noteq> None then s\<lparr>g_ctx := None\<rparr> else s);
          s2 = (if g_model s1 \<noteq> None then s1\<lparr>g_model := None\<rparr> else s1)
      in s2\<lparr>g_model_loaded := False\<rparr>)"

definition nativeIsModelLoaded :: "('m, 'c) globals \<Rightarrow> bool" where
  "nativeIsModelLoaded s = g_model_loaded s"

definition nativeCancelGeneration :: "('m, 'c) globals \<Rightarrow> ('m, 'c) globals" where
  "nativeCancelGeneration s = s\<lparr>g_cancel_generation := True\<rparr>"

definition nativeFree :: "('m, 'c) globals \<Rightarrow> ('m, 'c) globals" where
  "nativeFree s = nativeUnloadModel s"

subsection \<open>Generation\<close>

text \<open>
  The vector \<^verbatim>\<open>tokens\<close> after lines 168-176: \<open>cap\<close> zero-initialised slots, the
  tokenizer's output written over them, then \<^verbatim>\<open>resize(n_tokens)\<close>.
\<close>

definition tokens_of :: "nat \<Rightarrow> int \<times> llama_token list \<Rightarrow> llama_token list" where
  "tokens_of cap r = take (nat (fst r)) (take cap (snd r) @ replicate (nat (fst r)) 0)"

text \<open>The loop of lines 183-185, over the tokens from index \<open>i\<close> on.\<close>

fun batch_add_tokens :: "llama_token list \<Rightarrow> int \<Rightarrow> llama_batch \<Rightarrow> fault + llama_batch" where
  "batch_add_tokens [] i b = Inr b"
| "batch_add_tokens (t # ts) i b =
     (case llama_batch_add b t i [0] False of
        Inl f \<Rightarrow> Inl f
      | Inr b' \<Rightarrow> batch_add_tokens ts (i + 1) b')"

text \<open>The prompt batch of lines 182-186.\<close>

definition prefill_batch :: "llama_token list \<Rightarrow> fault + llama_batch" where
  "prefill_batch tokens =
     (case batch_add_tokens tokens 0 (llama_batch_init 512 0 1) of
        Inl f \<Rightarrow> Inl f
      | Inr b \<Rightarrow> set_logits b (n_tokens b - 1) True)"

text \<open>
  The locals of the decode loop (lines 196-227), with the cancel flag, which the loop
  reads. Another thread may call \<^verbatim>\<open>nativeCancelGeneration\<close> while the loop runs (it does
  not take the mutex): \<open>cancel_req k\<close> says whether such a call has arrived by the time
  the loop condition is evaluated with \<^verbatim>\<open>n_gen = k\<close>. Nothing clears the flag during
  the loop, and the value the model keeps is the one the loop read last. The buffer
  \<^verbatim>\<open>buf\<close> has 128 bytes, of which the library reports \<open>n\<close> written.
\<close>

record 'c gen_state =
  ctx :: 'c
  batch :: llama_batch
  n_cur :: int
  n_gen :: int
  result :: string
  cancel :: bool

text \<open>One pass through the loop body (lines 200-226): it leaves the loop (\<^verbatim>\<open>break\<close>),
  faults, or goes back to the loop condition.\<close>

datatype 'c pass = Break "'c gen_state" | Crash fault | Continue "'c gen_state"

definition loop_body :: "('m, 'c) llama \<Rightarrow> 'm \<Rightarrow> 'c gen_state \<Rightarrow> 'c pass" where
  "loop_body lib m st0 =
     (let new_token = llama_sample lib (ctx st0) (n_tokens (batch st0) - 1) in
      if llama_token_is_eog lib m new_token then Break st0
      else
        (let r = llama_token_to_piece lib m new_token 128 False;
             st1 = (if fst r > 0 then st0\<lparr>result := result st0 @ take (nat (fst r)) (snd r)\<rparr>
                    else st0);
             st2 = st1\<lparr>batch := llama_batch_clear (batch st1)\<rparr>
         in case llama_batch_add (batch st2) new_token (n_cur st2) [0] True of
              Inl f \<Rightarrow> Crash f
            | Inr b \<Rightarrow>
                (let d = llama_decode lib (ctx st2) b;
                     st3 = st2\<lparr>batch := b, ctx := snd d\<rparr>
                 in if fst d \<noteq> 0 then Break st3
                    else Continue (st3\<lparr>n_cur := n_cur st3 + 1, n_gen := n_gen st3 + 1\<rparr>))))"

text \<open>The loop of lines 199-227.\<close>

function decode_loop ::
  "('m, 'c) llama \<Rightarrow> (int \<Rightarrow> bool) \<Rightarrow> 'm \<Rightarrow> int \<Rightarrow> 'c gen_state \<Rightarrow> fault + 'c gen_state" where
  "decode_loop lib cancel_req m maxTokens st =
     (let st0 = st\<lparr>cancel := cancel st \<or> cancel_req (n_gen st)\<rparr> in
      if n_gen st0 < maxTokens \<and> \<not> cancel st0 then
        (case loop_body lib m st0 of
           Break st' \<Rightarrow> Inr st'
         | Crash f \<Rightarrow> Inl f
         | Continue st' \<Rightarrow> decode_loop lib cancel_req m maxTokens st')
      else Inr st0)"
  by pat_completeness auto
termination
  by (relation "measure (\<lambda>(lib, cancel_req, m, maxTokens, st). nat (maxTokens - n_gen st))")
     (auto simp: loop_body_def Let_def split: if_splits sum.splits)

declare decode_loop.simps [simp del]

text \<open>
  \<^verbatim>\<open>nativeGenerate\<close> (lines 139-241), real branch, in two parts. The first is
  everything up to the decode loop (lines 147-197): it either leaves the function
  (\<open>Early\<close>, with an error string or a fault) or reaches the loop (\<open>Ready\<close>, with the
  model, the globals and the loop's initial locals).
\<close>

datatype ('m, 'c) prefill =
  Early "fault + string \<times> ('m, 'c) globals"
| Ready 'm "('m, 'c) globals" "'c gen_state"

definition generate_prefill ::
  "('m, 'c) llama \<Rightarrow> ('m, 'c) globals \<Rightarrow> string \<Rightarrow> ('m, 'c) prefill" where
  "generate_prefill lib s prompt =
     (if \<not> g_model_loaded s then Early (Inr (''[Error: Model not loaded]'', s))
      else
        (let prompt_cstr = c_str prompt;
             s1 = s\<lparr>g_cancel_generation := False\<rparr>
         in case g_ctx s1 of
              None \<Rightarrow> Early (Inr (''[Error: Context not initialized]'', s1))
            | Some c \<Rightarrow>
               (case g_model s1 of
                  None \<Rightarrow> Early (Inr (''[Error: Context not initialized]'', s1))
                | Some m \<Rightarrow>
                   (let cap = length prompt_cstr + 1;
                        r = llama_tokenize lib m prompt_cstr cap True False
                    in if fst r < 0 then Early (Inr (''[Error: Tokenization failed]'', s1))
                       else
                         (let tokens = tokens_of cap r;
                              c1 = llama_kv_cache_clear lib c
                          in case prefill_batch tokens of
                               Inl f \<Rightarrow> Early (Inl f)
                             | Inr b \<Rightarrow>
                                (let d = llama_decode lib c1 b in
                                 if fst d \<noteq> 0
                                 then Early (Inr (''[Error: Decoding failed]'',
                                                  s1\<lparr>g_ctx := Some (snd d)\<rparr>))
                                 else Ready m s1
                                        \<lparr>ctx = snd d, batch = b, n_cur = n_tokens b, n_gen = 0,
                                         result = [], cancel = False\<rparr>))))))"

text \<open>The second part runs the loop and returns \<^verbatim>\<open>result.c_str()\<close> (lines 199-240).\<close>

definition nativeGenerate ::
  "('m, 'c) llama \<Rightarrow> (int \<Rightarrow> bool) \<Rightarrow> ('m, 'c) globals \<Rightarrow> string \<Rightarrow> int \<Rightarrow> real
     \<Rightarrow> fault + string \<times> ('m, 'c) globals" where
  "nativeGenerate lib cancel_req s prompt maxTokens temperature =
     (case generate_prefill lib s prompt of
        Early r \<Rightarrow> r
      | Ready m s1 st \<Rightarrow>
         (case decode_loop lib cancel_req m maxTokens st of
            Inl f \<Rightarrow> Inl f
          | Inr st' \<Rightarrow>
              Inr (c_str (result st'),
                   s1\<lparr>g_ctx := Some (ctx st'), g_cancel_generation := cancel st'\<rparr>)))"

section \<open>The stub compilation\<close>

text \<open>The \<^verbatim>\<open>#else\<close> branches of the same entry points.\<close>

definition nativeInit_stub :: "stub_globals \<Rightarrow> bool \<times> stub_globals" where
  "nativeInit_stub s = (True, s)"

definition nativeLoadModel_stub :: "stub_globals \<Rightarrow> string \<Rightarrow> int \<Rightarrow> int \<Rightarrow> bool \<times> stub_globals" where
  "nativeLoadModel_stub s modelPath nCtx nThreads = (True, s\<lparr>g_model_loaded := True\<rparr>)"

definition nativeGenerate_stub :: "stub_globals \<Rightarrow> string \<Rightarrow> int \<Rightarrow> real \<Rightarrow> string \<times> stub_globals" where
  "nativeGenerate_stub s prompt maxTokens temperature =
     (if \<not> g_model_loaded s then (''[Error: Model not loaded]'', s)
      else
        (let prompt_cstr = c_str prompt;
             s1 = s\<lparr>g_cancel_generation := False\<rparr>;
             result0 = ''[Stub Response] Model not compiled. Your prompt was: '';
             result1 = result0 @ take 50 prompt_cstr;
             result2 = result1 @ ''...''
         in (c_str result2, s1)))"

definition nativeCancelGeneration_stub :: "stub_globals \<Rightarrow> stub_globals" where
  "nativeCancelGeneration_stub s = s"

definition nativeUnloadModel_stub :: "stub_globals \<Rightarrow> stub_globals" where
  "nativeUnloadModel_stub s = s\<lparr>g_model_loaded := False\<rparr>"

definition nativeIsModelLoaded_stub :: "stub_globals \<Rightarrow> bool" where
  "nativeIsModelLoaded_stub s = g_model_loaded s"

definition nativeFree_stub :: "stub_globals \<Rightarrow> stub_globals" where
  "nativeFree_stub s = s"

section \<open>Notions used by the properties\<close>

text \<open>What lines 210-214 append to \<^verbatim>\<open>result\<close> for a token: the \<open>n\<close> bytes the library
  reports for the 128-byte buffer when \<open>n > 0\<close>, and nothing otherwise.\<close>

definition appended_piece :: "('m, 'c) llama \<Rightarrow> 'm \<Rightarrow> llama_token \<Rightarrow> string" where
  "appended_piece lib m t =
     (let r = llama_token_to_piece lib m t 128 False
      in if fst r > 0 then take (nat (fst r)) (snd r) else [])"

text \<open>The tokens the loop samples that are not the end-of-generation marker, in order:
  the same control flow as \<open>decode_loop\<close>, collecting \<^verbatim>\<open>new_token\<close>.\<close>

function sampled_tokens ::
  "('m, 'c) llama \<Rightarrow> (int \<Rightarrow> bool) \<Rightarrow> 'm \<Rightarrow> int \<Rightarrow> 'c gen_state \<Rightarrow> llama_token list" where
  "sampled_tokens lib cancel_req m maxTokens st =
     (let st0 = st\<lparr>cancel := cancel st \<or> cancel_req (n_gen st)\<rparr> in
      if n_gen st0 < maxTokens \<and> \<not> cancel st0 then
        (let new_token = llama_sample lib (ctx st0) (n_tokens (batch st0) - 1) in
         if llama_token_is_eog lib m new_token then []
         else
           (case loop_body lib m st0 of
              Break st' \<Rightarrow> [new_token]
            | Crash f \<Rightarrow> [new_token]
            | Continue st' \<Rightarrow> new_token # sampled_tokens lib cancel_req m maxTokens st'))
      else [])"
  by pat_completeness auto
termination
  by (relation "measure (\<lambda>(lib, cancel_req, m, maxTokens, st). nat (maxTokens - n_gen st))")
     (auto simp: loop_body_def Let_def split: if_splits sum.splits)

declare sampled_tokens.simps [simp del]

text \<open>Invariant I2 of the specification.\<close>

definition I2 :: "('m, 'c) globals \<Rightarrow> bool" where
  "I2 s = (g_model_loaded s = (g_model s \<noteq> None \<and> g_ctx s \<noteq> None))"

text \<open>Sequences of calls to the interface.\<close>

datatype call =
  Init
| LoadModel string int int
| Generate string int real
| CancelGeneration
| UnloadModel
| IsModelLoaded
| Free

fun is_load :: "call \<Rightarrow> bool" where
  "is_load (LoadModel path nCtx nThreads) = True"
| "is_load c = False"

fun call_stub :: "call \<Rightarrow> stub_globals \<Rightarrow> stub_globals" where
  "call_stub Init s = snd (nativeInit_stub s)"
| "call_stub (LoadModel path nCtx nThreads) s = snd (nativeLoadModel_stub s path nCtx nThreads)"
| "call_stub (Generate prompt maxTokens temperature) s =
     snd (nativeGenerate_stub s prompt maxTokens temperature)"
| "call_stub CancelGeneration s = nativeCancelGeneration_stub s"
| "call_stub UnloadModel s = nativeUnloadModel_stub s"
| "call_stub IsModelLoaded s = s"
| "call_stub Free s = nativeFree_stub s"

fun run_stub :: "call list \<Rightarrow> stub_globals \<Rightarrow> stub_globals" where
  "run_stub [] s = s"
| "run_stub (c # cs) s = run_stub cs (call_stub c s)"

text \<open>In the real compilation a call of \<^verbatim>\<open>nativeGenerate\<close> may fault, which ends the run.\<close>

fun call_real ::
  "('m, 'c) llama \<Rightarrow> (int \<Rightarrow> bool) \<Rightarrow> call \<Rightarrow> ('m, 'c) globals \<Rightarrow> fault + ('m, 'c) globals" where
  "call_real lib cancel_req Init s = Inr (snd (nativeInit s))"
| "call_real lib cancel_req (LoadModel path nCtx nThreads) s =
     Inr (snd (nativeLoadModel lib s path nCtx nThreads))"
| "call_real lib cancel_req (Generate prompt maxTokens temperature) s =
     (case nativeGenerate lib cancel_req s prompt maxTokens temperature of
        Inl f \<Rightarrow> Inl f
      | Inr r \<Rightarrow> Inr (snd r))"
| "call_real lib cancel_req CancelGeneration s = Inr (nativeCancelGeneration s)"
| "call_real lib cancel_req UnloadModel s = Inr (nativeUnloadModel s)"
| "call_real lib cancel_req IsModelLoaded s = Inr s"
| "call_real lib cancel_req Free s = Inr (nativeFree s)"

fun run_real ::
  "('m, 'c) llama \<Rightarrow> (int \<Rightarrow> bool) \<Rightarrow> call list \<Rightarrow> ('m, 'c) globals \<Rightarrow> fault + ('m, 'c) globals" where
  "run_real lib cancel_req [] s = Inr s"
| "run_real lib cancel_req (c # cs) s =
     (case call_real lib cancel_req c s of
        Inl f \<Rightarrow> Inl f
      | Inr s' \<Rightarrow> run_real lib cancel_req cs s')"

subsection \<open>A small library for concrete runs\<close>

text \<open>
  One model file exists; a new context starts at its context size; the tokenizer yields
  the beginning-of-sequence token and one token per byte; clearing the cache sets the
  context to 0, decoding adds the number of tokens decoded, and sampling yields tokens 100
  and 101 after a two-byte prompt, then the end-of-generation token 2.
\<close>

definition lib0 :: "(nat, nat) llama" where
  "lib0 =
     \<lparr>llama_model_default_params = \<lparr>n_gpu_layers = 99\<rparr>,
      llama_context_default_params = \<lparr>n_ctx = 512, n_threads = 1, n_threads_batch = 1\<rparr>,
      llama_load_model_from_file = (\<lambda>path mp. if path = ''/model.gguf'' then Some 7 else None),
      llama_new_context_with_model = (\<lambda>m cp.
         if n_threads cp = n_threads_batch cp then Some (nat (n_ctx cp)) else None),
      llama_tokenize = (\<lambda>m text cap add_bos special.
         (int (length text) + 1, replicate (length text + 1) 1)),
      llama_kv_cache_clear = (\<lambda>c. 0),
      llama_decode = (\<lambda>c b. (0, c + length (entries b))),
      llama_sample = (\<lambda>c i. if c < 5 then 97 + int c else 2),
      llama_token_is_eog = (\<lambda>m t. t = 2),
      llama_token_to_piece = (\<lambda>m t len special.
         if t = 100 then (1, ''d'') else if t = 101 then (1, ''e'') else (0, []))\<rparr>"

definition loaded0 :: "(nat, nat) globals" where
  "loaded0 =
     \<lparr>g_model_loaded = True, g_cancel_generation = False, g_model = Some 7, g_ctx = Some 2048\<rparr>"



text \<open>The same library when no context can be built.\<close>

definition lib_noctx :: "(nat, nat) llama" where
  "lib_noctx = lib0\<lparr>llama_new_context_with_model := (\<lambda>m cp. None)\<rparr>"

text \<open>Two schedules of cancel requests from other threads: none at all, and one that
  has arrived when the loop condition is evaluated with \<^verbatim>\<open>n_gen = k0\<close>.\<close>

definition no_cancel :: "int \<Rightarrow> bool" where
  "no_cancel k = False"

definition cancel_at :: "int \<Rightarrow> int \<Rightarrow> bool" where
  "cancel_at k0 k = (k0 \<le> k)"

text \<open>The loop's initial locals after the prefill of the prompt \<^verbatim>\<open>hi\<close> with \<open>lib0\<close>.\<close>

definition ready0 :: "nat gen_state" where
  "ready0 =
     \<lparr>ctx = 3,
      batch = \<lparr>capacity = 512, n_seq_max = 1,
               entries = [\<lparr>token = 1, pos = 0, seq_id = [0], logits = False\<rparr>,
                          \<lparr>token = 1, pos = 1, seq_id = [0], logits = False\<rparr>,
                          \<lparr>token = 1, pos = 2, seq_id = [0], logits = True\<rparr>]\<rparr>,
      n_cur = 3, n_gen = 0, result = [], cancel = False\<rparr>"

section \<open>Auxiliary facts\<close>

subsection \<open>NUL-terminated strings\<close>

lemma c_str_id: "CHR 0x00 \<notin> set s \<Longrightarrow> c_str s = s"
  by (auto simp: c_str_def)



subsection \<open>The loop body and the decode loop\<close>

lemma loop_body_Continue:
  assumes "loop_body lib m st0 = Continue st'"
  shows "n_gen st' = n_gen st0 + 1"
    and "cancel st' = cancel st0"
    and "\<not> llama_token_is_eog lib m (llama_sample lib (ctx st0) (n_tokens (batch st0) - 1))"
    and "result st' = result st0
           @ appended_piece lib m (llama_sample lib (ctx st0) (n_tokens (batch st0) - 1))"
    and "capacity (batch st') = capacity (batch st0)"
    and "n_seq_max (batch st') = n_seq_max (batch st0)"
  using assms
  by (auto simp: loop_body_def Let_def appended_piece_def llama_batch_add_def
      llama_batch_clear_def split: if_splits sum.splits)

lemma loop_body_Break:
  assumes "loop_body lib m st0 = Break st'"
  shows "cancel st' = cancel st0"
    and "n_gen st' = n_gen st0"
    and "result st' = result st0 @
           (if llama_token_is_eog lib m (llama_sample lib (ctx st0) (n_tokens (batch st0) - 1))
            then []
            else appended_piece lib m (llama_sample lib (ctx st0) (n_tokens (batch st0) - 1)))"
  using assms
  by (auto simp: loop_body_def Let_def appended_piece_def split: if_splits sum.splits)

lemma loop_body_no_crash:
  "0 < capacity (batch st0) \<Longrightarrow> 0 < n_seq_max (batch st0) \<Longrightarrow> loop_body lib m st0 \<noteq> Crash f"
  by (auto simp: loop_body_def Let_def llama_batch_add_def llama_batch_clear_def
      split: if_splits sum.splits)

lemma decode_loop_exit:
  "cancel st \<or> cancel_req (n_gen st) \<or> maxTokens \<le> n_gen st \<Longrightarrow>
   decode_loop lib cancel_req m maxTokens st
     = Inr (st\<lparr>cancel := cancel st \<or> cancel_req (n_gen st)\<rparr>)"
  by (subst decode_loop.simps) (auto simp: Let_def)

lemma sampled_tokens_exit:
  "cancel st \<or> cancel_req (n_gen st) \<or> maxTokens \<le> n_gen st \<Longrightarrow>
   sampled_tokens lib cancel_req m maxTokens st = []"
  by (subst sampled_tokens.simps) (auto simp: Let_def)

lemma decode_loop_result:
  "decode_loop lib cancel_req m maxTokens st = Inr st' \<Longrightarrow>
   result st' = result st
     @ concat (map (appended_piece lib m) (sampled_tokens lib cancel_req m maxTokens st))"
proof (induction lib cancel_req m maxTokens st arbitrary: st' rule: decode_loop.induct)
  case (1 lib cancel_req m maxTokens st)
  let ?st0 = "st\<lparr>cancel := cancel st \<or> cancel_req (n_gen st)\<rparr>"
  show ?case
  proof (cases "n_gen ?st0 < maxTokens \<and> \<not> cancel ?st0")
    case False
    with "1.prems" show ?thesis
      by (subst sampled_tokens.simps, subst (asm) decode_loop.simps) (auto simp: Let_def)
  next
    case True
    show ?thesis
    proof (cases "loop_body lib m ?st0")
      case (Break s)
      with True "1.prems" have "st' = s"
        by (subst (asm) decode_loop.simps) (simp add: Let_def)
      with Break True loop_body_Break(3)[OF Break] show ?thesis
        by (subst sampled_tokens.simps) (simp add: Let_def)
    next
      case (Crash f)
      with True "1.prems" show ?thesis
        by (subst (asm) decode_loop.simps) (simp add: Let_def)
    next
      case (Continue s)
      with True "1.prems" have "decode_loop lib cancel_req m maxTokens s = Inr st'"
        by (subst (asm) decode_loop.simps) (simp add: Let_def)
      from "1.IH"[OF refl True Continue this] loop_body_Continue(3,4)[OF Continue] Continue True
      show ?thesis
        by (subst sampled_tokens.simps) (simp add: Let_def)
    qed
  qed
qed

lemma sampled_tokens_length:
  "length (sampled_tokens lib cancel_req m maxTokens st) \<le> nat (maxTokens - n_gen st)"
proof (induction lib cancel_req m maxTokens st rule: decode_loop.induct)
  case (1 lib cancel_req m maxTokens st)
  let ?st0 = "st\<lparr>cancel := cancel st \<or> cancel_req (n_gen st)\<rparr>"
  show ?case
  proof (cases "n_gen ?st0 < maxTokens \<and> \<not> cancel ?st0")
    case False
    then show ?thesis
      by (subst sampled_tokens.simps) (auto simp: Let_def)
  next
    case True
    show ?thesis
    proof (cases "loop_body lib m ?st0")
      case (Continue s)
      from "1.IH"[OF refl True Continue] loop_body_Continue(1)[OF Continue] Continue True
      show ?thesis
        by (subst sampled_tokens.simps) (auto simp: Let_def)
    qed (use True in \<open>subst sampled_tokens.simps, auto simp: Let_def\<close>)+
  qed
qed


lemma decode_loop_no_fault:
  "0 < capacity (batch st) \<Longrightarrow> 0 < n_seq_max (batch st) \<Longrightarrow>
   \<exists>st'. decode_loop lib cancel_req m maxTokens st = Inr st'"
proof (induction lib cancel_req m maxTokens st rule: decode_loop.induct)
  case (1 lib cancel_req m maxTokens st)
  let ?st0 = "st\<lparr>cancel := cancel st \<or> cancel_req (n_gen st)\<rparr>"
  show ?case
  proof (cases "n_gen ?st0 < maxTokens \<and> \<not> cancel ?st0")
    case False
    then show ?thesis
      by (subst decode_loop.simps) (auto simp: Let_def)
  next
    case True
    show ?thesis
    proof (cases "loop_body lib m ?st0")
      case (Break s)
      with True show ?thesis by (subst decode_loop.simps) (simp add: Let_def)
    next
      case (Crash f)
      with loop_body_no_crash[of ?st0 lib m f] "1.prems" show ?thesis by simp
    next
      case (Continue s)
      from "1.IH"[OF refl True Continue] loop_body_Continue(5,6)[OF Continue] "1.prems"
      have "\<exists>st'. decode_loop lib cancel_req m maxTokens s = Inr st'" by simp
      with Continue True show ?thesis by (subst decode_loop.simps) (simp add: Let_def)
    qed
  qed
qed

text \<open>
  A cancel request that is first seen when the loop condition is evaluated with
  \<^verbatim>\<open>n_gen = k\<close> has the effect of a token limit of \<open>k\<close>: up to the flag, the loop
  ends in the state that an undisturbed run limited to \<open>k\<close> tokens ends in.
\<close>

lemma decode_loop_cancel:
  assumes "cancel_req k" and "\<forall>j. n_gen st \<le> j \<and> j < k \<longrightarrow> \<not> cancel_req j"
    and "n_gen st \<le> k" and "\<not> cancel st"
  shows "decode_loop lib cancel_req m maxTokens st
           = map_sum id (\<lambda>s. s\<lparr>cancel := (n_gen s = k)\<rparr>)
               (decode_loop lib no_cancel m (min maxTokens k) st)"
  using assms
proof (induction lib cancel_req m maxTokens st rule: decode_loop.induct)
  case (1 lib cancel_req m maxTokens st)
  let ?st0 = "st\<lparr>cancel := cancel st \<or> cancel_req (n_gen st)\<rparr>"
  show ?case
  proof (cases "n_gen ?st0 < maxTokens \<and> \<not> cancel ?st0")
    case False
    with "1.prems" have "cancel st \<or> cancel_req (n_gen st) \<or> maxTokens \<le> n_gen st" by auto
    moreover from "1.prems" have *: "cancel_req (n_gen st) = (n_gen st = k)" by auto
    moreover from False "1.prems" * have "min maxTokens k \<le> n_gen st" by auto
    ultimately show ?thesis using "1.prems" *
      by (simp add: decode_loop_exit no_cancel_def)
  next
    case True
    with "1.prems" have lt: "n_gen st < k" "n_gen st < maxTokens" "\<not> cancel_req (n_gen st)"
      by (auto simp: order_less_le)
    with "1.prems" have st0: "?st0 = st\<lparr>cancel := False\<rparr>" by simp
    have R: "decode_loop lib no_cancel m (min maxTokens k) st =
      (case loop_body lib m ?st0 of
           Break st' \<Rightarrow> Inr st'
         | Crash f \<Rightarrow> Inl f
         | Continue st' \<Rightarrow> decode_loop lib no_cancel m (min maxTokens k) st')"
      using lt "1.prems" by (subst decode_loop.simps) (simp add: Let_def no_cancel_def)
    have L: "decode_loop lib cancel_req m maxTokens st =
      (case loop_body lib m ?st0 of
           Break st' \<Rightarrow> Inr st'
         | Crash f \<Rightarrow> Inl f
         | Continue st' \<Rightarrow> decode_loop lib cancel_req m maxTokens st')"
      using True by (subst decode_loop.simps) (simp add: Let_def)
    show ?thesis
    proof (cases "loop_body lib m ?st0")
      case (Break s)
      have "n_gen s \<noteq> k \<and> \<not> cancel s"
        using loop_body_Break(1,2)[OF Break] lt True by simp
      with Break show ?thesis unfolding L R by simp
    next
      case (Crash f)
      then show ?thesis unfolding L R by simp
    next
      case (Continue s)
      from loop_body_Continue(1,2)[OF Continue] lt "1.prems" st0
      have "\<forall>j. n_gen s \<le> j \<and> j < k \<longrightarrow> \<not> cancel_req j" "n_gen s \<le> k" "\<not> cancel s"
        by auto
      from "1.IH"[OF refl True Continue "1.prems"(1) this] Continue
      show ?thesis unfolding L R by simp
    qed
  qed
qed

subsection \<open>The prompt batch\<close>

lemma batch_add_tokens_same:
  "batch_add_tokens ts i b = Inr b' \<Longrightarrow>
   capacity b' = capacity b \<and> n_seq_max b' = n_seq_max b"
  by (induction ts arbitrary: i b)
     (auto simp: llama_batch_add_def split: if_splits sum.splits)

lemma batch_add_tokens_overflow:
  "length (entries b) \<le> capacity b \<Longrightarrow> capacity b < length (entries b) + length ts \<Longrightarrow>
   batch_add_tokens ts i b = Inl BatchOverflow"
  by (induction ts arbitrary: i b) (auto simp: llama_batch_add_def split: sum.splits)

lemma batch_add_tokens_ok:
  "length (entries b) + length ts \<le> capacity b \<Longrightarrow> 1 \<le> n_seq_max b \<Longrightarrow>
   batch_add_tokens ts i b =
     Inr (b\<lparr>entries := entries b @
            map (\<lambda>j. \<lparr>token = ts ! j, pos = i + int j, seq_id = [0], logits = False\<rparr>)
              [0..<length ts]\<rparr>)"
proof (induction ts arbitrary: i b)
  case Nil
  then show ?case by simp
next
  case (Cons t ts)
  have "map (\<lambda>j. \<lparr>token = (t # ts) ! j, pos = i + int j, seq_id = [0], logits = False\<rparr>)
          [0..<length (t # ts)]
      = \<lparr>token = t, pos = i, seq_id = [0], logits = False\<rparr> #
        map (\<lambda>j. \<lparr>token = ts ! j, pos = i + 1 + int j, seq_id = [0], logits = False\<rparr>)
          [0..<length ts]"
    by (simp add: upt_conv_Cons map_Suc_upt[symmetric] del: upt_Suc)
  with Cons show ?case
    by (simp add: llama_batch_add_def)
qed

lemma prefill_batch_overflow: "512 < length ts \<Longrightarrow> prefill_batch ts = Inl BatchOverflow"
  by (simp add: prefill_batch_def batch_add_tokens_overflow llama_batch_init_def)

lemma prefill_batch_empty: "prefill_batch [] = Inl LogitsIndexOutOfRange"
  by (simp add: prefill_batch_def llama_batch_init_def set_logits_def n_tokens_def)

text \<open>
  For a prompt of 1 to 512 tokens the batch holds every token at its index under sequence
  id 0, and only the last one asks for logits.
\<close>

lemma prefill_batch_ok:
  assumes "0 < length ts" and "length ts \<le> 512"
  shows "prefill_batch ts =
     Inr \<lparr>capacity = 512, n_seq_max = 1,
          entries = map (\<lambda>j. \<lparr>token = ts ! j, pos = int j, seq_id = [0],
                              logits = (j = length ts - 1)\<rparr>) [0..<length ts]\<rparr>"
proof -
  let ?es = "map (\<lambda>j. \<lparr>token = ts ! j, pos = 0 + int j, seq_id = [0], logits = False\<rparr>)
               [0..<length ts]"
  have "batch_add_tokens ts 0 (llama_batch_init 512 0 1) =
          Inr \<lparr>capacity = 512, n_seq_max = 1, entries = ?es\<rparr>"
    using assms by (subst batch_add_tokens_ok) (simp_all add: llama_batch_init_def)
  moreover have "?es[length ts - 1 := (?es ! (length ts - 1))\<lparr>logits := True\<rparr>]
      = map (\<lambda>j. \<lparr>token = ts ! j, pos = int j, seq_id = [0], logits = (j = length ts - 1)\<rparr>)
          [0..<length ts]"
  proof (rule nth_equalityI)
    show "length (?es[length ts - 1 := (?es ! (length ts - 1))\<lparr>logits := True\<rparr>])
        = length (map (\<lambda>j. \<lparr>token = ts ! j, pos = int j, seq_id = [0],
                            logits = (j = length ts - 1)\<rparr>) [0..<length ts])"
      by simp
  next
    fix j
    assume "j < length (?es[length ts - 1 := (?es ! (length ts - 1))\<lparr>logits := True\<rparr>])"
    then have "j < length ts" by simp
    then show "?es[length ts - 1 := (?es ! (length ts - 1))\<lparr>logits := True\<rparr>] ! j
        = map (\<lambda>j. \<lparr>token = ts ! j, pos = int j, seq_id = [0],
                     logits = (j = length ts - 1)\<rparr>) [0..<length ts] ! j"
      by (simp add: nth_list_update)
  qed
  moreover have "nat (int (length ts) - 1) = length ts - 1"
    by simp
  ultimately show ?thesis
    using assms(1) by (simp add: prefill_batch_def set_logits_def n_tokens_def)
qed

lemma set_logits_same:
  "set_logits b i v = Inr b' \<Longrightarrow> capacity b' = capacity b \<and> n_seq_max b' = n_seq_max b"
  by (auto simp: set_logits_def split: if_splits)

lemma prefill_batch_same:
  assumes "prefill_batch ts = Inr b"
  shows "capacity b = 512 \<and> n_seq_max b = 1"
proof (cases "batch_add_tokens ts 0 (llama_batch_init 512 0 1)")
  case (Inl f)
  with assms show ?thesis by (simp add: prefill_batch_def)
next
  case (Inr b0)
  with assms have "set_logits b0 (n_tokens b0 - 1) True = Inr b"
    by (simp add: prefill_batch_def)
  from set_logits_same[OF this] batch_add_tokens_same[OF Inr] show ?thesis
    by (simp add: llama_batch_init_def)
qed

subsection \<open>Reaching the loop\<close>

lemma generate_prefill_Ready:
  assumes "generate_prefill lib s prompt = Ready m s1 st"
  shows "g_model_loaded s" and "s1 = s\<lparr>g_cancel_generation := False\<rparr>"
    and "g_model s = Some m" and "g_ctx s \<noteq> None"
    and "n_gen st = 0" and "result st = []" and "\<not> cancel st"
    and "capacity (batch st) = 512" and "n_seq_max (batch st) = 1"
  using assms
  by (auto simp: generate_prefill_def Let_def
      split: if_splits option.splits sum.splits dest: prefill_batch_same)

lemma generate_prefill_reset:
  "g_model_loaded s \<Longrightarrow>
   generate_prefill lib (s\<lparr>g_cancel_generation := False\<rparr>) prompt = generate_prefill lib s prompt"
  by (simp add: generate_prefill_def)


subsection \<open>Concrete runs with \<open>lib0\<close>\<close>

lemma eval_prefill0: "generate_prefill lib0 loaded0 ''hi'' = Ready 7 loaded0 ready0"
  by (simp add: generate_prefill_def lib0_def loaded0_def ready0_def c_str_def tokens_of_def
      prefill_batch_def llama_batch_init_def llama_batch_add_def set_logits_def n_tokens_def)

lemma eval_prefill0_flag:
  "generate_prefill lib0 (loaded0\<lparr>g_cancel_generation := True\<rparr>) ''hi'' = Ready 7 loaded0 ready0"
  by (simp add: generate_prefill_def lib0_def loaded0_def ready0_def c_str_def tokens_of_def
      prefill_batch_def llama_batch_init_def llama_batch_add_def set_logits_def n_tokens_def)


lemma eval_loop0_1:
  "decode_loop lib0 no_cancel 7 1 ready0 =
     Inr \<lparr>ctx = 4,
          batch = \<lparr>capacity = 512, n_seq_max = 1,
                   entries = [\<lparr>token = 100, pos = 3, seq_id = [0], logits = True\<rparr>]\<rparr>,
          n_cur = 4, n_gen = 1, result = ''d'', cancel = False\<rparr>"
  by (simp add: decode_loop.simps loop_body_def Let_def lib0_def ready0_def no_cancel_def
      llama_batch_add_def llama_batch_clear_def n_tokens_def)


lemma eval_sampled0_1: "sampled_tokens lib0 no_cancel 7 1 ready0 = [100]"
  by (simp add: sampled_tokens.simps loop_body_def Let_def lib0_def ready0_def no_cancel_def
      llama_batch_add_def llama_batch_clear_def n_tokens_def)


lemma loaded0_loaded: "g_model_loaded loaded0"
  by (simp add: loaded0_def)

subsection \<open>The handles and the loaded flag\<close>

text \<open>
  A failed load clears both handles and leaves \<^verbatim>\<open>g_model_loaded\<close> as it was.
\<close>

lemma nativeLoadModel_failure:
  "fst (nativeLoadModel lib s modelPath nCtx nThreads) = False \<Longrightarrow>
   snd (nativeLoadModel lib s modelPath nCtx nThreads) = s\<lparr>g_model := None, g_ctx := None\<rparr>"
  by (auto simp: nativeLoadModel_def Let_def split: option.splits)

text \<open>
  Along every run from the fresh state a context is only present together with its
  model, and both handles present imply the flag: the half of I2 that the code keeps.
\<close>

lemma nativeGenerate_handles:
  assumes "nativeGenerate lib cancel_req s prompt maxTokens temperature = Inr r"
  shows "g_model (snd r) = g_model s \<and> (g_ctx (snd r) = None) = (g_ctx s = None) \<and>
         g_model_loaded (snd r) = g_model_loaded s"
proof (cases "generate_prefill lib s prompt")
  case (Early e)
  with assms have "generate_prefill lib s prompt = Early (Inr r)"
    by (simp add: nativeGenerate_def)
  then show ?thesis
    by (auto simp: generate_prefill_def Let_def split: if_splits option.splits sum.splits)
next
  case (Ready m s1 st)
  note p = generate_prefill_Ready[OF Ready]
  from assms Ready p(2,4) show ?thesis
    by (auto simp: nativeGenerate_def split: sum.splits)
qed

lemma call_real_handles:
  assumes "call_real lib cancel_req c s = Inr s'"
    and "(g_model s = None) = (g_ctx s = None)" and "g_ctx s \<noteq> None \<longrightarrow> g_model_loaded s"
  shows "(g_model s' = None) = (g_ctx s' = None) \<and> (g_ctx s' \<noteq> None \<longrightarrow> g_model_loaded s')"
proof (cases c)
  case (Generate prompt maxTokens temperature)
  with assms(1) obtain r where
    "nativeGenerate lib cancel_req s prompt maxTokens temperature = Inr r" "s' = snd r"
    by (auto split: sum.splits)
  with nativeGenerate_handles[OF this(1)] assms(2,3) show ?thesis by simp
qed (use assms in \<open>auto simp: nativeInit_def nativeLoadModel_def nativeUnloadModel_def
      nativeCancelGeneration_def nativeFree_def Let_def split: option.splits\<close>)

lemma run_real_handles:
  assumes "run_real lib cancel_req calls s = Inr s'"
    and "(g_model s = None) = (g_ctx s = None)" and "g_ctx s \<noteq> None \<longrightarrow> g_model_loaded s"
  shows "(g_model s' = None) = (g_ctx s' = None) \<and> (g_ctx s' \<noteq> None \<longrightarrow> g_model_loaded s')"
  using assms
proof (induction calls arbitrary: s)
  case Nil
  then show ?case by simp
next
  case (Cons c cs)
  from Cons.prems(1) obtain s1 where s1: "call_real lib cancel_req c s = Inr s1"
    "run_real lib cancel_req cs s1 = Inr s'"
    by (auto split: sum.splits)
  from call_real_handles[OF s1(1) Cons.prems(2,3)] Cons.IH[OF s1(2)] show ?case by simp
qed

lemma handles_imply_loaded:
  "run_real lib cancel_req calls fresh = Inr s \<Longrightarrow>
   (g_ctx s \<noteq> None \<longrightarrow> g_model s \<noteq> None) \<and>
   (g_model s \<noteq> None \<and> g_ctx s \<noteq> None \<longrightarrow> g_model_loaded s)"
  using run_real_handles[of lib cancel_req calls fresh s] by (simp add: fresh_def)

subsection \<open>Stub runs\<close>

lemma run_stub_no_load:
  "\<forall>c \<in> set calls. \<not> is_load c \<Longrightarrow> \<not> g_model_loaded s \<Longrightarrow>
   \<not> g_model_loaded (run_stub calls s)"
proof (induction calls arbitrary: s)
  case Nil
  then show ?case by simp
next
  case (Cons c cs)
  from Cons.prems have "\<not> g_model_loaded (call_stub c s)"
    by (cases c)
       (simp_all add: nativeInit_stub_def nativeGenerate_stub_def nativeCancelGeneration_stub_def
          nativeUnloadModel_stub_def nativeFree_stub_def)
  with Cons show ?case by simp
qed

section \<open>The claims\<close>

text \<open>
  Claim C1: a load that fails is to return false and leave the "no model" state, with both
  handles cleared and \<^verbatim>\<open>model_loaded\<close> false, also after an earlier successful load.
  The code returns false and clears both handles, but never writes \<^verbatim>\<open>g_model_loaded\<close>
  on a failure path: after a successful load of \<^verbatim>\<open>/model.gguf\<close>, a load of a missing
  file leaves the flag true, and so does a load for which no context can be built.
\<close>

theorem failed_reload_keeps_loaded_flag:
  "nativeLoadModel lib0 fresh ''/model.gguf'' 0 0 = (True, loaded0) \<and>
   nativeLoadModel lib0 loaded0 ''/missing.gguf'' 1024 2 =
     (False, \<lparr>g_model_loaded = True, g_cancel_generation = False,
              g_model = None, g_ctx = None\<rparr>) \<and>
   nativeLoadModel lib_noctx loaded0 ''/model.gguf'' 1024 2 =
     (False, \<lparr>g_model_loaded = True, g_cancel_generation = False,
              g_model = None, g_ctx = None\<rparr>)"
  by (simp add: nativeLoadModel_def lib_noctx_def lib0_def fresh_def loaded0_def c_str_def
      ctx_params_of_def)

text \<open>
  Claim C2: I2, \<^verbatim>\<open>model_loaded\<close> exactly when both handles are present, is to hold
  after every call of every sequence from the fresh state. The sequence init, successful
  load, failed load ends in a state with the flag set and no handles.
\<close>

theorem I2_broken_by_failed_reload:
  "run_real lib0 no_cancel
     [Init, LoadModel ''/model.gguf'' 0 0, LoadModel ''/missing.gguf'' 1024 2] fresh
     = Inr \<lparr>g_model_loaded = True, g_cancel_generation = False, g_model = None, g_ctx = None\<rparr> \<and>
   \<not> I2 \<lparr>g_model_loaded = True, g_cancel_generation = False,
          g_model = (None :: nat option), g_ctx = (None :: nat option)\<rparr>"
  by (simp add: nativeInit_def nativeLoadModel_def lib0_def fresh_def c_str_def
      ctx_params_of_def I2_def)

text \<open>
  Claim C3: when no model is loaded, generate returns exactly
  \<^verbatim>\<open>[Error: Model not loaded]\<close> and leaves the whole state as it was, the cancel flag and
  the handles included, for every prompt, token limit and temperature; in the real and in
  the stub compilation.
\<close>

theorem generate_not_loaded:
  "(\<not> g_model_loaded s \<longrightarrow>
      nativeGenerate lib cancel_req s prompt maxTokens temperature
        = Inr (''[Error: Model not loaded]'', s)) \<and>
   (\<not> g_model_loaded t \<longrightarrow>
      nativeGenerate_stub t prompt maxTokens temperature = (''[Error: Model not loaded]'', t))"
  by (simp add: nativeGenerate_def generate_prefill_def nativeGenerate_stub_def)

text \<open>
  The theorem at a fresh state whose cancel flag has been set, and at a stub state after
  unload.
\<close>

theorem generate_not_loaded_witness:
  "\<not> g_model_loaded (nativeCancelGeneration (fresh :: (nat, nat) globals)) \<and>
   nativeGenerate lib0 (cancel_at 0) (nativeCancelGeneration fresh) ''x'' 10 0
     = Inr (''[Error: Model not loaded]'', nativeCancelGeneration fresh) \<and>
   g_cancel_generation (nativeCancelGeneration (fresh :: (nat, nat) globals)) \<and>
   \<not> g_model_loaded (nativeUnloadModel_stub fresh_stub) \<and>
   nativeGenerate_stub (nativeUnloadModel_stub fresh_stub) ''x'' 10 0
     = (''[Error: Model not loaded]'', nativeUnloadModel_stub fresh_stub)"
  using generate_not_loaded [of "nativeCancelGeneration (fresh :: (nat, nat) globals)" lib0
      "cancel_at 0" "''x''" 10 0 "nativeUnloadModel_stub fresh_stub"]
  by (simp add: nativeCancelGeneration_def fresh_def nativeUnloadModel_stub_def fresh_stub_def)




text \<open>
  Claim C5, as stated, has every generate call reset the cancel flag on entry. A call made
  while no model is loaded returns before the reset: after a cancel in the fresh state the
  flag is still set when generate has returned.
\<close>

theorem cancel_flag_not_reset_counterexample:
  "nativeGenerate lib0 no_cancel (nativeCancelGeneration fresh) ''hi'' 5 0
     = Inr (''[Error: Model not loaded]'',
            \<lparr>g_model_loaded = False, g_cancel_generation = True, g_model = None, g_ctx = None\<rparr>)"
  by (simp add: nativeGenerate_def generate_prefill_def nativeCancelGeneration_def fresh_def)

text \<open>
  Claim C5, amended: every generate call that finds \<^verbatim>\<open>model_loaded\<close> true resets
  the cancel flag before anything else, so the value the flag had before the call has no
  effect on it; and if the call reaches the decode loop and a cancel request is first seen
  when the loop condition is evaluated with \<^verbatim>\<open>n_gen = k\<close>, generate leaves the loop
  there and returns the output accumulated so far, which is the output of an undisturbed
  run limited to \<open>k\<close> tokens, and no error string.
\<close>

theorem generate_cancel:
  "(g_model_loaded s \<longrightarrow>
      nativeGenerate lib cancel_req s prompt maxTokens temperature
        = nativeGenerate lib cancel_req (s\<lparr>g_cancel_generation := False\<rparr>)
            prompt maxTokens temperature) \<and>
   (generate_prefill lib s prompt = Ready m s1 st \<and> 0 \<le> k \<and> cancel_req k \<and>
    (\<forall>j. 0 \<le> j \<and> j < k \<longrightarrow> \<not> cancel_req j) \<longrightarrow>
      \<not> cancel st \<and>
      (\<exists>st'. decode_loop lib no_cancel m (min maxTokens k) st = Inr st' \<and>
             nativeGenerate lib cancel_req s prompt maxTokens temperature
               = Inr (c_str (result st'),
                      s1\<lparr>g_ctx := Some (ctx st'), g_cancel_generation := (n_gen st' = k)\<rparr>)))"
proof (intro conjI impI)
  assume "g_model_loaded s"
  then show "nativeGenerate lib cancel_req s prompt maxTokens temperature
        = nativeGenerate lib cancel_req (s\<lparr>g_cancel_generation := False\<rparr>)
            prompt maxTokens temperature"
    by (simp add: nativeGenerate_def generate_prefill_reset)
next
  assume a: "generate_prefill lib s prompt = Ready m s1 st \<and> 0 \<le> k \<and> cancel_req k \<and>
    (\<forall>j. 0 \<le> j \<and> j < k \<longrightarrow> \<not> cancel_req j)"
  then have r: "generate_prefill lib s prompt = Ready m s1 st" by simp
  from generate_prefill_Ready(7)[OF r] show "\<not> cancel st" .
next
  assume a: "generate_prefill lib s prompt = Ready m s1 st \<and> 0 \<le> k \<and> cancel_req k \<and>
    (\<forall>j. 0 \<le> j \<and> j < k \<longrightarrow> \<not> cancel_req j)"
  then have r: "generate_prefill lib s prompt = Ready m s1 st" by simp
  note p = generate_prefill_Ready[OF r]
  from p(8,9) obtain st' where
    st': "decode_loop lib no_cancel m (min maxTokens k) st = Inr st'"
    using decode_loop_no_fault[of st lib no_cancel m "min maxTokens k"] by auto
  have "decode_loop lib cancel_req m maxTokens st
           = map_sum id (\<lambda>s. s\<lparr>cancel := (n_gen s = k)\<rparr>)
               (decode_loop lib no_cancel m (min maxTokens k) st)"
    using a p(5,7) by (intro decode_loop_cancel) auto
  with st' r have "nativeGenerate lib cancel_req s prompt maxTokens temperature
               = Inr (c_str (result st'),
                      s1\<lparr>g_ctx := Some (ctx st'), g_cancel_generation := (n_gen st' = k)\<rparr>)"
    by (simp add: nativeGenerate_def)
  with st' show "\<exists>st'. decode_loop lib no_cancel m (min maxTokens k) st = Inr st' \<and>
             nativeGenerate lib cancel_req s prompt maxTokens temperature
               = Inr (c_str (result st'),
                      s1\<lparr>g_ctx := Some (ctx st'), g_cancel_generation := (n_gen st' = k)\<rparr>)"
    by blast
qed

text \<open>
  The theorem on a loaded state whose flag is set, with a cancel request arriving after
  the first generated token.
\<close>

theorem generate_cancel_witness:
  "g_model_loaded (loaded0\<lparr>g_cancel_generation := True\<rparr>) \<and>
   generate_prefill lib0 (loaded0\<lparr>g_cancel_generation := True\<rparr>) ''hi'' = Ready 7 loaded0 ready0 \<and>
   cancel_at 1 1 \<and> \<not> cancel_at 1 0 \<and>
   nativeGenerate lib0 (cancel_at 1) (loaded0\<lparr>g_cancel_generation := True\<rparr>) ''hi'' 5 0
     = nativeGenerate lib0 (cancel_at 1)
         (loaded0\<lparr>g_cancel_generation := True, g_cancel_generation := False\<rparr>) ''hi'' 5 0 \<and>
   nativeGenerate lib0 (cancel_at 1) (loaded0\<lparr>g_cancel_generation := True\<rparr>) ''hi'' 5 0
     = Inr (''d'', loaded0\<lparr>g_ctx := Some 4, g_cancel_generation := True\<rparr>)"
proof -
  have h: "\<forall>j. 0 \<le> j \<and> j < 1 \<longrightarrow> \<not> cancel_at 1 j"
    by (simp add: cancel_at_def)
  have c: "cancel_at 1 1" "\<not> cancel_at 1 0" "(0::int) \<le> 1"
    by (simp_all add: cancel_at_def)
  have l: "g_model_loaded (loaded0\<lparr>g_cancel_generation := True\<rparr>)"
    by (simp add: loaded0_loaded)
  note T = generate_cancel [where s = "loaded0\<lparr>g_cancel_generation := True\<rparr>" and lib = lib0
        and cancel_req = "cancel_at 1" and prompt = "''hi''" and maxTokens = 5
        and temperature = 0 and m = 7 and ?s1.0 = loaded0 and st = ready0 and k = 1]
  from T l have A: "nativeGenerate lib0 (cancel_at 1) (loaded0\<lparr>g_cancel_generation := True\<rparr>) ''hi'' 5 0
     = nativeGenerate lib0 (cancel_at 1)
         (loaded0\<lparr>g_cancel_generation := True, g_cancel_generation := False\<rparr>) ''hi'' 5 0"
    by blast
  from T h c eval_prefill0_flag have
    "\<exists>st'. decode_loop lib0 no_cancel 7 (min 5 1) ready0 = Inr st' \<and>
       nativeGenerate lib0 (cancel_at 1) (loaded0\<lparr>g_cancel_generation := True\<rparr>) ''hi'' 5 0
         = Inr (c_str (result st'),
                loaded0\<lparr>g_ctx := Some (ctx st'), g_cancel_generation := (n_gen st' = 1)\<rparr>)"
    by blast
  then have B: "nativeGenerate lib0 (cancel_at 1) (loaded0\<lparr>g_cancel_generation := True\<rparr>) ''hi'' 5 0
     = Inr (''d'', loaded0\<lparr>g_ctx := Some 4, g_cancel_generation := True\<rparr>)"
    by (simp add: eval_loop0_1 c_str_def)
  from l eval_prefill0_flag c A B show ?thesis by blast
qed

text \<open>
  Claim C6: every generate call that reaches the decode loop returns; what it returns is
  made of the pieces of at most \<^verbatim>\<open>maxTokens\<close> sampled tokens (tokens, not bytes); and
  for \<^verbatim>\<open>maxTokens \<le> 0\<close> the loop ends at once, no token is sampled and the empty
  string is returned.
\<close>

theorem max_tokens_bound:
  assumes "generate_prefill lib s prompt = Ready m s1 st"
  shows "\<exists>st'. decode_loop lib cancel_req m maxTokens st = Inr st' \<and>
           nativeGenerate lib cancel_req s prompt maxTokens temperature
             = Inr (c_str (result st'),
                    s1\<lparr>g_ctx := Some (ctx st'), g_cancel_generation := cancel st'\<rparr>) \<and>
           result st' = concat (map (appended_piece lib m)
                                  (sampled_tokens lib cancel_req m maxTokens st)) \<and>
           length (sampled_tokens lib cancel_req m maxTokens st) \<le> nat maxTokens \<and>
           (maxTokens \<le> 0 \<longrightarrow>
              sampled_tokens lib cancel_req m maxTokens st = [] \<and>
              st' = st\<lparr>cancel := cancel_req 0\<rparr> \<and> c_str (result st') = [])"
proof -
  note p = generate_prefill_Ready[OF assms]
  from p(8,9) obtain st' where st': "decode_loop lib cancel_req m maxTokens st = Inr st'"
    using decode_loop_no_fault[of st lib cancel_req m maxTokens] by auto
  have 1: "nativeGenerate lib cancel_req s prompt maxTokens temperature
             = Inr (c_str (result st'),
                    s1\<lparr>g_ctx := Some (ctx st'), g_cancel_generation := cancel st'\<rparr>)"
    using assms st' by (simp add: nativeGenerate_def)
  have 2: "result st' = concat (map (appended_piece lib m)
                                  (sampled_tokens lib cancel_req m maxTokens st))"
    using decode_loop_result[OF st'] p(6) by simp
  have 3: "length (sampled_tokens lib cancel_req m maxTokens st) \<le> nat maxTokens"
    using sampled_tokens_length[of lib cancel_req m maxTokens st] p(5) by simp
  have 4: "maxTokens \<le> 0 \<longrightarrow>
              sampled_tokens lib cancel_req m maxTokens st = [] \<and>
              st' = st\<lparr>cancel := cancel_req 0\<rparr> \<and> c_str (result st') = []"
  proof
    assume "maxTokens \<le> 0"
    with p(5) have e: "cancel st \<or> cancel_req (n_gen st) \<or> maxTokens \<le> n_gen st" by simp
    from decode_loop_exit[of st cancel_req maxTokens lib m, OF e] st' p(5,6,7)
      sampled_tokens_exit[of st cancel_req maxTokens lib m, OF e]
    show "sampled_tokens lib cancel_req m maxTokens st = [] \<and>
              st' = st\<lparr>cancel := cancel_req 0\<rparr> \<and> c_str (result st') = []"
      by (auto simp: c_str_def)
  qed
  from st' 1 2 3 4 show ?thesis by blast
qed

text \<open>
  The theorem with a limit of one token, of zero and of \<open>-3\<close>.
\<close>

theorem max_tokens_bound_witness:
  "generate_prefill lib0 loaded0 ''hi'' = Ready 7 loaded0 ready0 \<and>
   nativeGenerate lib0 no_cancel loaded0 ''hi'' 1 0
     = Inr (''d'', loaded0\<lparr>g_ctx := Some 4, g_cancel_generation := False\<rparr>) \<and>
   sampled_tokens lib0 no_cancel 7 1 ready0 = [100] \<and>
   nativeGenerate lib0 no_cancel loaded0 ''hi'' 0 0
     = Inr ([], loaded0\<lparr>g_ctx := Some 3, g_cancel_generation := False\<rparr>) \<and>
   nativeGenerate lib0 no_cancel loaded0 ''hi'' (- 3) 0
     = Inr ([], loaded0\<lparr>g_ctx := Some 3, g_cancel_generation := False\<rparr>)"
proof -
  from max_tokens_bound [OF eval_prefill0, of no_cancel 1 0]
  have A: "nativeGenerate lib0 no_cancel loaded0 ''hi'' 1 0
     = Inr (''d'', loaded0\<lparr>g_ctx := Some 4, g_cancel_generation := False\<rparr>)"
    by (simp add: eval_loop0_1 c_str_def)
  from max_tokens_bound [OF eval_prefill0, of no_cancel 0 0]
  have B: "nativeGenerate lib0 no_cancel loaded0 ''hi'' 0 0
     = Inr ([], loaded0\<lparr>g_ctx := Some 3, g_cancel_generation := False\<rparr>)"
    by (auto simp: no_cancel_def ready0_def)
  from max_tokens_bound [OF eval_prefill0, of no_cancel "- 3" 0]
  have C: "nativeGenerate lib0 no_cancel loaded0 ''hi'' (- 3) 0
     = Inr ([], loaded0\<lparr>g_ctx := Some 3, g_cancel_generation := False\<rparr>)"
    by (auto simp: no_cancel_def ready0_def)
  from eval_prefill0 eval_sampled0_1 A B C show ?thesis by blast
qed

text \<open>
  Claim C7: when the model file loads, the context is built from the default parameters
  with the context size 2048 for \<^verbatim>\<open>nCtx \<le> 0\<close> and \<^verbatim>\<open>nCtx\<close> otherwise, and with
  the thread count 4 for \<^verbatim>\<open>nThreads \<le> 0\<close> and \<^verbatim>\<open>nThreads\<close> otherwise, the same
  count for generation and for prompt batches; the load succeeds exactly when that
  context is built.
\<close>

theorem load_defaults:
  assumes "llama_load_model_from_file lib (c_str modelPath)
             ((llama_model_default_params lib)\<lparr>n_gpu_layers := 0\<rparr>) = Some m"
  shows "g_ctx (snd (nativeLoadModel lib s modelPath nCtx nThreads))
           = llama_new_context_with_model lib m
               ((llama_context_default_params lib)
                  \<lparr>n_ctx := (if nCtx \<le> 0 then 2048 else nCtx),
                   n_threads := (if nThreads \<le> 0 then 4 else nThreads),
                   n_threads_batch := (if nThreads \<le> 0 then 4 else nThreads)\<rparr>) \<and>
         fst (nativeLoadModel lib s modelPath nCtx nThreads)
           = (g_ctx (snd (nativeLoadModel lib s modelPath nCtx nThreads)) \<noteq> None)"
  using assms
  by (auto simp: nativeLoadModel_def ctx_params_of_def Let_def split: option.splits)

text \<open>
  The theorem with \<open>lib0\<close>, whose new context records its context size: defaults for
  \<open>0\<close> and \<open>-1\<close>, and the given values for 1024 and 2.
\<close>

theorem load_defaults_witness:
  "llama_load_model_from_file lib0 (c_str ''/model.gguf'')
     ((llama_model_default_params lib0)\<lparr>n_gpu_layers := 0\<rparr>) = Some 7 \<and>
   g_ctx (snd (nativeLoadModel lib0 fresh ''/model.gguf'' 0 (- 1))) = Some 2048 \<and>
   fst (nativeLoadModel lib0 fresh ''/model.gguf'' 0 (- 1)) \<and>
   g_ctx (snd (nativeLoadModel lib0 fresh ''/model.gguf'' 1024 2)) = Some 1024"
proof -
  have h: "llama_load_model_from_file lib0 (c_str ''/model.gguf'')
     ((llama_model_default_params lib0)\<lparr>n_gpu_layers := 0\<rparr>) = Some 7"
    by (simp add: lib0_def c_str_def)
  have n: "llama_new_context_with_model lib0 7
            ((llama_context_default_params lib0)
               \<lparr>n_ctx := 2048, n_threads := 4, n_threads_batch := 4\<rparr>) = Some 2048"
    "llama_new_context_with_model lib0 7
            ((llama_context_default_params lib0)
               \<lparr>n_ctx := 1024, n_threads := 2, n_threads_batch := 2\<rparr>) = Some 1024"
    by (simp_all add: lib0_def)
  from load_defaults [OF h, of fresh 0 "- 1"] n
  have A: "g_ctx (snd (nativeLoadModel lib0 fresh ''/model.gguf'' 0 (- 1))) = Some 2048 \<and>
   fst (nativeLoadModel lib0 fresh ''/model.gguf'' 0 (- 1))"
    by simp
  from load_defaults [OF h, of fresh 1024 2] n
  have B: "g_ctx (snd (nativeLoadModel lib0 fresh ''/model.gguf'' 1024 2)) = Some 1024"
    by simp
  from h A B show ?thesis by blast
qed

text \<open>
  Claim C8: for every prompt that tokenizes into \<open>n\<close> tokens, one batch with all
  \<open>n\<close> tokens is built and submitted. The batch is allocated for 512 tokens and line 184
  adds without a bound: a prompt of 512 bytes, 513 tokens with the beginning-of-sequence
  token, makes the 513th \<^verbatim>\<open>llama_batch_add\<close> write outside the allocation, and no batch
  is submitted. (\<open>prefill_batch_ok\<close> is the claim for 1 to 512 tokens.)
\<close>

theorem long_prompt_overflows_batch:
  "nativeGenerate lib0 no_cancel loaded0 (replicate 512 CHR ''a'') 16 0 = Inl BatchOverflow"
proof -
  have "c_str (replicate 512 CHR ''a'') = replicate 512 CHR ''a''"
    by (rule c_str_id) simp
  then show ?thesis
    by (simp add: nativeGenerate_def generate_prefill_def lib0_def loaded0_def tokens_of_def
        prefill_batch_overflow)
qed




text \<open>
  Claim C10: in the stub compilation, generate returns \<^verbatim>\<open>[Error: Model not loaded]\<close>,
  which is not the stub response, after every sequence of calls from the fresh state
  that contains no load, and after an unload in any state.
\<close>

theorem stub_generate_requires_load:
  "((\<forall>c \<in> set calls. \<not> is_load c) \<longrightarrow>
      fst (nativeGenerate_stub (run_stub calls fresh_stub) prompt maxTokens temperature)
        = ''[Error: Model not loaded]'') \<and>
   fst (nativeGenerate_stub (nativeUnloadModel_stub s) prompt maxTokens temperature)
     = ''[Error: Model not loaded]'' \<and>
   ''[Error: Model not loaded]''
     \<noteq> ''[Stub Response] Model not compiled. Your prompt was: '' @ take 50 (c_str prompt) @ ''...''"
  using run_stub_no_load[of calls fresh_stub]
  by (simp add: nativeGenerate_stub_def nativeUnloadModel_stub_def fresh_stub_def)

text \<open>
  The theorem after a sequence of every call but load, and after load and unload.
\<close>

theorem stub_generate_requires_load_witness:
  "\<not> is_load Init \<and> \<not> is_load (Generate ''x'' 1 0) \<and> \<not> is_load CancelGeneration \<and>
   \<not> is_load UnloadModel \<and> \<not> is_load IsModelLoaded \<and> \<not> is_load Free \<and>
   fst (nativeGenerate_stub
          (run_stub [Init, Generate ''x'' 1 0, CancelGeneration, UnloadModel, IsModelLoaded, Free]
             fresh_stub) ''hello'' 16 0)
     = ''[Error: Model not loaded]'' \<and>
   fst (nativeGenerate_stub
          (nativeUnloadModel_stub (snd (nativeLoadModel_stub fresh_stub ''/x.gguf'' 0 0)))
          ''hello'' 16 0)
     = ''[Error: Model not loaded]''"
  using stub_generate_requires_load
    [of "[Init, Generate ''x'' 1 0, CancelGeneration, UnloadModel, IsModelLoaded, Free]"
        "''hello''" 16 0 "snd (nativeLoadModel_stub fresh_stub ''/x.gguf'' 0 0)"]
  by simp

end
